theory Spec2Isabelle
  imports Main
begin

section \<open>Data model (src/src/types.ts)\<close>

text \<open>
  \<^verbatim>\<open>enum BookCategory { ACADEMIC = 'Academic', CHRISTIAN_NOVEL = 'Christian Novel' }\<close>
\<close>

datatype BookCategory = ACADEMIC | CHRISTIAN_NOVEL

text \<open>
  \<^verbatim>\<open>interface Book\<close>: the identifier field is called \<open>book_id\<close> here (\<open>id\<close> is the
  identity function of HOL). The four fields marked \<open>?\<close> in the interface are optional;
  \<open>None\<close> stands for both \<open>undefined\<close> and \<open>null\<close>, which the code never tells apart.
  The two URLs are optional as well: they are what the normalisation of a fetched row
  yields (\<open>b.cover_url || b.coverUrl\<close>), which may be \<open>undefined\<close>.
\<close>

record Book =
  book_id :: string
  title :: string
  author :: string
  category :: BookCategory
  description :: "string option"
  coverUrl :: "string option"
  downloadUrl :: "string option"
  department :: "string option"
  courseCode :: "string option"
  courseTitle :: "string option"
  level :: "string option"

text \<open>\<^verbatim>\<open>category: BookCategory | 'All'\<close> of \<^verbatim>\<open>interface FilterState\<close>.\<close>

datatype CategoryFilter = All | Cat BookCategory

record FilterState =
  search :: string
  category :: CategoryFilter
  department :: string
  level :: string

section \<open>Strings\<close>

text \<open>
  \<^verbatim>\<open>String.prototype.toLowerCase\<close>, on the letters \<open>A\<close> to \<open>Z\<close>; every other
  character is left as it is. (A \<open>char\<close> is one byte, so the case mapping of letters
  outside ASCII is not modelled.)
\<close>

definition lower_char :: "char \<Rightarrow> char" where
  "lower_char c =
     (let n = (of_char c :: nat) in if 65 \<le> n \<and> n \<le> 90 then char_of (n + 32) else c)"

definition toLowerCase :: "string \<Rightarrow> string" where
  "toLowerCase s = map lower_char s"

text \<open>\<^verbatim>\<open>s.startsWith(t)\<close> and \<^verbatim>\<open>s.includes(t)\<close>: \<open>t\<close> occurs in \<open>s\<close> as a contiguous run.\<close>

fun startsWith :: "string \<Rightarrow> string \<Rightarrow> bool" where
  "startsWith s [] = True"
| "startsWith [] (d # t) = False"
| "startsWith (c # s) (d # t) = (c = d \<and> startsWith s t)"

fun includes_str :: "string \<Rightarrow> string \<Rightarrow> bool" where
  "includes_str [] t = (t = [])"
| "includes_str (c # s) t = (startsWith (c # s) t \<or> includes_str s t)"

text \<open>
  \<^verbatim>\<open>x?.toLowerCase().includes(y)\<close> on an optional field: \<open>undefined\<close> (falsy) when the
  field is absent.
\<close>

definition opt_includes_lower :: "string option \<Rightarrow> string \<Rightarrow> bool" where
  "opt_includes_lower x y =
     (case x of None \<Rightarrow> False | Some s \<Rightarrow> includes_str (toLowerCase s) y)"

section \<open>Catalog filtering (src/src/App.tsx, filteredBooks)\<close>

definition matchesSearch :: "FilterState \<Rightarrow> Book \<Rightarrow> bool" where
  "matchesSearch filters book =
     (includes_str (toLowerCase (title book)) (toLowerCase (search filters)) \<or>
      includes_str (toLowerCase (author book)) (toLowerCase (search filters)) \<or>
      opt_includes_lower (courseCode book) (toLowerCase (search filters)) \<or>
      opt_includes_lower (courseTitle book) (toLowerCase (search filters)))"

definition matchesCategory :: "FilterState \<Rightarrow> Book \<Rightarrow> bool" where
  "matchesCategory filters book = (Cat (Book.category book) = FilterState.category filters)"

definition matchesDept :: "FilterState \<Rightarrow> Book \<Rightarrow> bool" where
  "matchesDept filters book =
     (FilterState.department filters = ''All'' \<or>
      (Book.category book = ACADEMIC \<and>
       Book.department book = Some (FilterState.department filters)))"

definition matchesLevel :: "FilterState \<Rightarrow> Book \<Rightarrow> bool" where
  "matchesLevel filters book =
     (FilterState.level filters = ''All'' \<or>
      (Book.category book = ACADEMIC \<and>
       Book.level book = Some (FilterState.level filters)))"

definition filteredBooks :: "Book list \<Rightarrow> FilterState \<Rightarrow> Book list" where
  "filteredBooks books filters =
     filter (\<lambda>book. matchesSearch filters book \<and> matchesCategory filters book \<and>
                    matchesDept filters book \<and> matchesLevel filters book) books"

text \<open>
  The state set by the "Clear all filters" button:
  \<^verbatim>\<open>setFilters({ search: '', category: 'All', department: 'All', level: 'All' })\<close>.
\<close>

definition clearAllFilters :: FilterState where
  "clearAllFilters =
     \<lparr>search = '''', category = All, department = ''All'', level = ''All''\<rparr>"

text \<open>The initial filter state of the component (\<^verbatim>\<open>useState<FilterState>\<close>).\<close>

definition initialFilters :: FilterState where
  "initialFilters =
     \<lparr>search = '''', category = Cat ACADEMIC, department = ''All'', level = ''All''\<rparr>"

subsection \<open>The filter as section 4.4 of the specification words it\<close>



text \<open>Applying a sequence of single-predicate filters one after the other.\<close>

definition applyFilters :: "(Book \<Rightarrow> bool) list \<Rightarrow> Book list \<Rightarrow> Book list" where
  "applyFilters ps books = fold filter ps books"

subsection \<open>Sample catalog entries and filter states\<close>

definition demo_academic :: Book where
  "demo_academic =
     \<lparr>book_id = ''b1'', title = ''Intro to CS'', author = ''DLCF Library'',
      category = ACADEMIC, description = None, coverUrl = Some ''thumb1.jpg'',
      downloadUrl = Some ''intro.pdf'', department = Some ''Computer Science'',
      courseCode = Some ''CSC101'', courseTitle = Some ''Intro to CS'',
      level = Some ''100''\<rparr>"

definition demo_novel :: Book where
  "demo_novel =
     \<lparr>book_id = ''b2'', title = ''Pilgrims Progress'', author = ''DLCF Library'',
      category = CHRISTIAN_NOVEL, description = None, coverUrl = Some ''thumb2.jpg'',
      downloadUrl = Some ''pilgrim.pdf'', department = None, courseCode = None,
      courseTitle = None, level = None\<rparr>"

definition demo_filters :: FilterState where
  "demo_filters =
     \<lparr>search = ''csc'', category = Cat ACADEMIC, department = ''All'', level = ''100''\<rparr>"

section \<open>The identity store (tables of the README's schema)\<close>

text \<open>
  A row of table \<open>users\<close> (\<^verbatim>\<open>id UUID PRIMARY KEY, email TEXT UNIQUE NOT NULL, password,
  name, is_approved BOOLEAN, is_admin BOOLEAN\<close>) and a row of table \<open>registration_links\<close>
  (\<^verbatim>\<open>id UUID PRIMARY KEY, token TEXT UNIQUE NOT NULL, expires_at TIMESTAMPTZ, created_at\<close>).
  Columns carry a prefix, since both tables have an \<open>id\<close>. A timestamp is the number of
  milliseconds since the epoch, which is what \<^verbatim>\<open>new Date(link.expires_at) < new Date()\<close>
  compares. The two flags are only ever read for their truthiness.
\<close>

record user_row =
  u_id :: string
  u_email :: string
  u_password :: string
  u_name :: string
  is_approved :: bool
  is_admin :: bool

record link_row =
  l_id :: string
  l_token :: string
  expires_at :: int
  created_at :: int

record db =
  users :: "user_row list"
  registration_links :: "link_row list"

text \<open>
  \<^verbatim>\<open>.single()\<close>: the row when exactly one row is selected, an error when none or several are.
\<close>

definition single :: "'a list \<Rightarrow> string + 'a" where
  "single rows =
     (case rows of
        [r] \<Rightarrow> Inr r
      | _ \<Rightarrow> Inl ''JSON object requested, multiple (or no) rows returned'')"

text \<open>
  \<^verbatim>\<open>.insert([row])\<close>: the store refuses a row that breaks the primary key or a
  \<^verbatim>\<open>UNIQUE\<close> constraint of the schema and reports an error; otherwise the row is added.
\<close>

definition insert_user :: "user_row \<Rightarrow> user_row list \<Rightarrow> string + user_row list" where
  "insert_user r rows =
     (if u_id r \<in> set (map u_id rows)
        then Inl ''duplicate key value violates unique constraint users_pkey''
      else if u_email r \<in> set (map u_email rows)
        then Inl ''duplicate key value violates unique constraint users_email_key''
      else Inr (rows @ [r]))"

definition insert_link :: "link_row \<Rightarrow> link_row list \<Rightarrow> string + link_row list" where
  "insert_link r rows =
     (if l_id r \<in> set (map l_id rows)
        then Inl ''duplicate key value violates unique constraint registration_links_pkey''
      else if l_token r \<in> set (map l_token rows)
        then Inl ''duplicate key value violates unique constraint registration_links_token_key''
      else Inr (rows @ [r]))"

text \<open>The schema's uniqueness constraints, as a predicate on the store.\<close>

definition store_ok :: "db \<Rightarrow> bool" where
  "store_ok d =
     (distinct (map u_id (users d)) \<and> distinct (map u_email (users d)) \<and>
      distinct (map l_id (registration_links d)) \<and>
      distinct (map l_token (registration_links d)))"

section \<open>Authentication routes (src/server.ts)\<close>

record 'b response =
  status :: nat
  body :: 'b

text \<open>
  \<^verbatim>\<open>interface User\<close> of types.ts, the projection a login answers with
  (\<open>uid\<close> is its field \<open>id\<close>).
\<close>

record User =
  uid :: string
  email :: string
  name :: string
  isAdmin :: bool

datatype login_body = LoginUser User | LoginError string

datatype register_body = RegisterSuccess | RegisterError string

datatype link_body = LinkToken string | LinkError string

text \<open>
  \<^verbatim>\<open>getSupabase()\<close> throws when the URL or the key is missing or empty; the route's
  \<^verbatim>\<open>catch\<close> turns that into the route's error response.
\<close>

record server =
  SUPABASE_URL :: "string option"
  SUPABASE_ANON_KEY :: "string option"
  store :: db

definition falsy :: "string option \<Rightarrow> bool" where
  "falsy x = (case x of None \<Rightarrow> True | Some s \<Rightarrow> s = [])"

definition supabase_config_error :: string where
  "supabase_config_error =
     ''SUPABASE_URL and SUPABASE_ANON_KEY are required. Please configure them in your environment variables.''"

definition getSupabase :: "server \<Rightarrow> string + db" where
  "getSupabase srv =
     (if falsy (SUPABASE_URL srv) \<or> falsy (SUPABASE_ANON_KEY srv)
        then Inl supabase_config_error
      else Inr (store srv))"

text \<open>The body of the \<^verbatim>\<open>try\<close> block of \<^verbatim>\<open>POST /api/auth/login\<close>, on the store's tables.\<close>

definition login :: "db \<Rightarrow> string \<Rightarrow> string \<Rightarrow> login_body response" where
  "login d email_in password_in =
     (case single (filter (\<lambda>u. u_email u = email_in \<and> u_password u = password_in) (users d)) of
        Inl err \<Rightarrow> \<lparr>status = 401, body = LoginError ''Invalid credentials''\<rparr>
      | Inr user \<Rightarrow>
          if \<not> is_approved user \<and> \<not> is_admin user
            then \<lparr>status = 403, body = LoginError ''Account pending approval''\<rparr>
          else \<lparr>status = 200,
                 body = LoginUser \<lparr>uid = u_id user, email = u_email user,
                                   name = u_name user, isAdmin = is_admin user\<rparr>\<rparr>)"

definition post_auth_login :: "server \<Rightarrow> string \<Rightarrow> string \<Rightarrow> login_body response" where
  "post_auth_login srv email_in password_in =
     (case getSupabase srv of
        Inl msg \<Rightarrow> \<lparr>status = 500, body = LoginError msg\<rparr>
      | Inr d \<Rightarrow> login d email_in password_in)"

text \<open>
  \<^verbatim>\<open>POST /api/auth/register\<close>. \<open>now\<close> is the clock read by \<^verbatim>\<open>new Date()\<close> and \<open>uuid\<close>
  the value \<^verbatim>\<open>uuidv4()\<close> returns. The \<^verbatim>\<open>catch\<close> answers 400 with
  \<^verbatim>\<open>err.message || 'Registration failed'\<close>. The result is the response and the store
  after the request.
\<close>

definition register_catch :: "string \<Rightarrow> register_body response" where
  "register_catch msg =
     \<lparr>status = 400, body = RegisterError (if msg = [] then ''Registration failed'' else msg)\<rparr>"

definition register ::
  "db \<Rightarrow> int \<Rightarrow> string \<Rightarrow> string \<Rightarrow> string \<Rightarrow> string \<Rightarrow> string
     \<Rightarrow> register_body response \<times> db" where
  "register d now uuid email_in password_in name_in token =
     (case single (filter (\<lambda>l. l_token l = token) (registration_links d)) of
        Inl err \<Rightarrow> (\<lparr>status = 400, body = RegisterError ''Invalid registration link''\<rparr>, d)
      | Inr link \<Rightarrow>
          if expires_at link < now
            then (\<lparr>status = 400, body = RegisterError ''Registration link expired''\<rparr>, d)
          else
            (case insert_user \<lparr>u_id = uuid, u_email = email_in, u_password = password_in,
                                u_name = name_in, is_approved = False, is_admin = False\<rparr>
                    (users d) of
               Inl regError \<Rightarrow> (register_catch regError, d)
             | Inr users' \<Rightarrow>
                 (\<lparr>status = 200, body = RegisterSuccess\<rparr>,
                  d\<lparr>users := users',
                    registration_links :=
                      filter (\<lambda>l. l_token l \<noteq> token) (registration_links d)\<rparr>)))"

definition post_auth_register ::
  "server \<Rightarrow> int \<Rightarrow> string \<Rightarrow> string \<Rightarrow> string \<Rightarrow> string \<Rightarrow> string
     \<Rightarrow> register_body response \<times> server" where
  "post_auth_register srv now uuid email_in password_in name_in token =
     (case getSupabase srv of
        Inl msg \<Rightarrow> (register_catch msg, srv)
      | Inr d \<Rightarrow>
          (case register d now uuid email_in password_in name_in token of
             (res, d') \<Rightarrow> (res, srv\<lparr>store := d'\<rparr>)))"

text \<open>
  \<^verbatim>\<open>POST /api/admin/generate-link\<close>: \<^verbatim>\<open>expiresAt.setHours(expiresAt.getHours() + 24)\<close>
  moves the clock reading one day ahead, 24 hours of 3600000 milliseconds under a fixed
  offset from UTC. \<open>token_uuid\<close> and \<open>id_uuid\<close> are the two values of \<^verbatim>\<open>uuidv4()\<close>;
  \<open>created_at\<close> is the column's default, the time of the insert.
\<close>

definition hours :: "int \<Rightarrow> int" where
  "hours n = n * 3600000"

definition generate_link ::
  "db \<Rightarrow> int \<Rightarrow> string \<Rightarrow> string \<Rightarrow> link_body response \<times> db" where
  "generate_link d now token_uuid id_uuid =
     (let token = token_uuid; expiresAt = now + hours 24 in
      case insert_link \<lparr>l_id = id_uuid, l_token = token, expires_at = expiresAt,
                         created_at = now\<rparr> (registration_links d) of
        Inl msg \<Rightarrow> (\<lparr>status = 500, body = LinkError msg\<rparr>, d)
      | Inr links' \<Rightarrow>
          (\<lparr>status = 200, body = LinkToken token\<rparr>, d\<lparr>registration_links := links'\<rparr>))"

subsection \<open>Sample stores\<close>






section \<open>Client: responses as the handlers read them (src/src/App.tsx)\<close>

text \<open>
  What \<^verbatim>\<open>await fetch(...)\<close> gives a handler: \<open>Inl msg\<close> when the promise rejects with an
  error of that message (the same \<^verbatim>\<open>catch\<close> receives a rejected read of the body, so both
  are one case), \<open>Inr res\<close> otherwise. The body of a response is \<open>None\<close> when its text is
  not JSON (\<^verbatim>\<open>JSON.parse\<close> and \<^verbatim>\<open>res.json()\<close> throw), \<open>Some JsonNull\<close> when it parses to
  \<^verbatim>\<open>null\<close> (reading a property of it throws a \<^verbatim>\<open>TypeError\<close>), and \<open>Some (Json v)\<close> for any
  other value, seen through the properties the handler reads.
\<close>

datatype 'a json = JsonNull | Json 'a

type_synonym 'a fetch_result = "string + 'a json option response"

text \<open>\<^verbatim>\<open>res.ok\<close>: the status is in the range 200 to 299.\<close>

definition ok :: "'b response \<Rightarrow> bool" where
  "ok res = (200 \<le> status res \<and> status res \<le> 299)"

datatype toast_type = ToastSuccess | ToastError

text \<open>\<^verbatim>\<open>a || b\<close> on optional strings: \<open>undefined\<close>, \<open>null\<close> and the empty string are falsy.\<close>

definition or_else :: "string option \<Rightarrow> string option \<Rightarrow> string option" where
  "or_else a b = (if falsy a then b else a)"

definition or_default :: "string option \<Rightarrow> string \<Rightarrow> string" where
  "or_default a d = (case a of None \<Rightarrow> d | Some s \<Rightarrow> if s = [] then d else s)"

section \<open>Loading the catalog (fetchBooks)\<close>

text \<open>
  A row of the JSON array that \<^verbatim>\<open>/api/books\<close> answers with, typed \<^verbatim>\<open>any\<close> in the code:
  the columns of table \<open>books\<close> and the camel-case properties the normalisation falls
  back to. The category of a stored row is one of the two values of the enum.
\<close>

record raw_book =
  r_id :: string
  r_title :: string
  r_author :: string
  r_category :: BookCategory
  r_description :: "string option"
  r_cover_url :: "string option"
  r_coverUrl :: "string option"
  r_download_url :: "string option"
  r_downloadUrl :: "string option"
  r_department :: "string option"
  r_course_code :: "string option"
  r_courseCode :: "string option"
  r_course_title :: "string option"
  r_courseTitle :: "string option"
  r_level :: "string option"

text \<open>
  \<^verbatim>\<open>{ ...b, coverUrl: b.cover_url || b.coverUrl, downloadUrl: b.download_url || b.downloadUrl,
     courseCode: b.course_code || b.courseCode, courseTitle: b.course_title || b.courseTitle }\<close>
\<close>

definition normalize :: "raw_book \<Rightarrow> Book" where
  "normalize b =
     \<lparr>book_id = r_id b, title = r_title b, author = r_author b, category = r_category b,
      description = r_description b,
      coverUrl = or_else (r_cover_url b) (r_coverUrl b),
      downloadUrl = or_else (r_download_url b) (r_downloadUrl b),
      department = r_department b,
      courseCode = or_else (r_course_code b) (r_courseCode b),
      courseTitle = or_else (r_course_title b) (r_courseTitle b),
      level = r_level b\<rparr>"

text \<open>
  The JSON value of the response of \<^verbatim>\<open>/api/books\<close>: an array of rows, or another value
  with its property \<open>error\<close> (absent for a value that has none).
\<close>

datatype books_json = BooksArray "raw_book list" | BooksObject "string option"

record library_state =
  books :: "Book list"
  dbError :: "string option"

text \<open>
  \<^verbatim>\<open>fetchBooks\<close>. \<open>INITIAL_BOOKS\<close> is the demo catalog of constants.ts, a parameter here.
  The banner of the navigation bar shows \<open>dbError\<close> whenever it is set.
\<close>

definition fetchBooks ::
  "Book list \<Rightarrow> library_state \<Rightarrow> books_json fetch_result \<Rightarrow> library_state" where
  "fetchBooks INITIAL_BOOKS st fetched =
     (case fetched of
        Inl err \<Rightarrow> st\<lparr>books := INITIAL_BOOKS\<rparr>
      | Inr res \<Rightarrow>
          if \<not> ok res then
            (case body res of
               None \<Rightarrow> st\<lparr>books := INITIAL_BOOKS\<rparr>
             | Some JsonNull \<Rightarrow> st\<lparr>books := INITIAL_BOOKS\<rparr>
             | Some (Json (BooksArray rows)) \<Rightarrow> st\<lparr>books := INITIAL_BOOKS\<rparr>
             | Some (Json (BooksObject None)) \<Rightarrow> st\<lparr>books := INITIAL_BOOKS\<rparr>
             | Some (Json (BooksObject (Some error))) \<Rightarrow>
                 if includes_str error ''SUPABASE_URL''
                   then st\<lparr>dbError := Some ''Database not configured. Showing demo materials.'',
                           books := INITIAL_BOOKS\<rparr>
                 else st\<lparr>books := INITIAL_BOOKS\<rparr>)
          else
            (case body res of
               None \<Rightarrow> st\<lparr>books := INITIAL_BOOKS\<rparr>
             | Some JsonNull \<Rightarrow> st\<lparr>dbError := None, books := INITIAL_BOOKS\<rparr>
             | Some (Json (BooksObject error)) \<Rightarrow> st\<lparr>dbError := None, books := INITIAL_BOOKS\<rparr>
             | Some (Json (BooksArray rows)) \<Rightarrow>
                 (let normalized = map normalize rows in
                  st\<lparr>dbError := None,
                     books := (if length normalized > 0 then normalized else INITIAL_BOOKS)\<rparr>)))"

text \<open>The component's state when \<^verbatim>\<open>fetchBooks\<close> runs, on mount.\<close>

definition initial_library :: library_state where
  "initial_library = \<lparr>books = [], dbError = None\<rparr>"

text \<open>
  An error reply of \<^verbatim>\<open>/api/books\<close> whose message names \<open>SUPABASE_URL\<close>, as the server's
  \<^verbatim>\<open>catch\<close> sends when \<^verbatim>\<open>getSupabase()\<close> throws.
\<close>

definition reports_missing_configuration :: "books_json fetch_result \<Rightarrow> bool" where
  "reports_missing_configuration fetched =
     (case fetched of
        Inl err \<Rightarrow> False
      | Inr res \<Rightarrow>
          (case body res of
             Some (Json (BooksObject (Some e))) \<Rightarrow> \<not> ok res \<and> includes_str e ''SUPABASE_URL''
           | _ \<Rightarrow> False))"

definition unconfigured_reply :: "books_json fetch_result" where
  "unconfigured_reply =
     Inr \<lparr>status = 500, body = Some (Json (BooksObject (Some supabase_config_error)))\<rparr>"

section \<open>Optimistic admin actions (approveUser, deleteLink, deleteBook)\<close>

text \<open>
  A row of \<^verbatim>\<open>/api/admin/pending-users\<close> (\<^verbatim>\<open>select('id, email, name')\<close>) and
  \<^verbatim>\<open>interface RegistrationLink\<close>, whose timestamps are ISO strings on the client.
\<close>

record pending_user =
  pu_id :: string
  pu_email :: string
  pu_name :: string

record RegistrationLink =
  rl_id :: string
  rl_token :: string
  rl_expires_at :: string
  rl_created_at :: string

text \<open>
  One run of a handler: the list displayed after the optimistic update, while the request
  is under way; the list displayed when the handler has finished; the toast shown.
\<close>

record 'a optimistic_run =
  displayed_during :: "'a list"
  displayed_after :: "'a list"
  toast :: "(string \<times> toast_type) option"

definition approveUser ::
  "pending_user list \<Rightarrow> string \<Rightarrow> 'b fetch_result \<Rightarrow> pending_user optimistic_run" where
  "approveUser pendingUsers userId fetched =
     (let previousUsers = pendingUsers;
          removed = filter (\<lambda>u. pu_id u \<noteq> userId) pendingUsers
      in case fetched of
           Inl err \<Rightarrow>
             \<lparr>displayed_during = removed, displayed_after = previousUsers,
              toast = Some (err, ToastError)\<rparr>
         | Inr res \<Rightarrow>
             if \<not> ok res
               then \<lparr>displayed_during = removed, displayed_after = previousUsers,
                     toast = Some (''Failed to approve user'', ToastError)\<rparr>
             else \<lparr>displayed_during = removed, displayed_after = removed,
                   toast = Some (''User approved successfully'', ToastSuccess)\<rparr>)"

text \<open>\<open>confirmed\<close> is the answer to the \<^verbatim>\<open>confirm(...)\<close> dialog; on "cancel" nothing happens.\<close>

definition deleteLink ::
  "RegistrationLink list \<Rightarrow> string \<Rightarrow> bool \<Rightarrow> 'b fetch_result
     \<Rightarrow> RegistrationLink optimistic_run" where
  "deleteLink adminLinks link_id confirmed fetched =
     (if \<not> confirmed
        then \<lparr>displayed_during = adminLinks, displayed_after = adminLinks, toast = None\<rparr>
      else
        let previousLinks = adminLinks;
            removed = filter (\<lambda>l. rl_id l \<noteq> link_id) adminLinks
        in case fetched of
             Inl err \<Rightarrow>
               \<lparr>displayed_during = removed, displayed_after = previousLinks,
                toast = Some (err, ToastError)\<rparr>
           | Inr res \<Rightarrow>
               if \<not> ok res
                 then \<lparr>displayed_during = removed, displayed_after = previousLinks,
                       toast = Some (''Failed to delete link'', ToastError)\<rparr>
               else \<lparr>displayed_during = removed, displayed_after = removed,
                     toast = Some (''Link revoked successfully'', ToastSuccess)\<rparr>)"

definition deleteBook ::
  "Book list \<Rightarrow> string \<Rightarrow> bool \<Rightarrow> 'b fetch_result \<Rightarrow> Book optimistic_run" where
  "deleteBook books_now bid confirmed fetched =
     (if \<not> confirmed
        then \<lparr>displayed_during = books_now, displayed_after = books_now, toast = None\<rparr>
      else
        let previousBooks = books_now;
            removed = filter (\<lambda>b. book_id b \<noteq> bid) books_now
        in case fetched of
             Inl err \<Rightarrow>
               \<lparr>displayed_during = removed, displayed_after = previousBooks,
                toast = Some (err, ToastError)\<rparr>
           | Inr res \<Rightarrow>
               if \<not> ok res
                 then \<lparr>displayed_during = removed, displayed_after = previousBooks,
                       toast = Some (''Failed to delete book'', ToastError)\<rparr>
               else \<lparr>displayed_during = removed, displayed_after = removed,
                     toast = Some (''Book deleted successfully'', ToastSuccess)\<rparr>)"

text \<open>A request that fails: the promise rejects, or the response is not ok.\<close>

definition request_failed :: "'b fetch_result \<Rightarrow> bool" where
  "request_failed fetched = (case fetched of Inl err \<Rightarrow> True | Inr res \<Rightarrow> \<not> ok res)"

subsection \<open>Sample admin lists\<close>

definition demo_pending_users :: "pending_user list" where
  "demo_pending_users =
     [\<lparr>pu_id = ''u1'', pu_email = ''ada@dlcf.org'', pu_name = ''Ada''\<rparr>,
      \<lparr>pu_id = ''u2'', pu_email = ''bob@dlcf.org'', pu_name = ''Bob''\<rparr>]"

definition demo_admin_links :: "RegistrationLink list" where
  "demo_admin_links =
     [\<lparr>rl_id = ''k1'', rl_token = ''tok'', rl_expires_at = ''2026-01-02T00:00:00.000Z'',
       rl_created_at = ''2026-01-01T00:00:00.000Z''\<rparr>]"

definition server_error :: "unit fetch_result" where
  "server_error = Inr \<lparr>status = 500, body = None\<rparr>"

definition server_success :: "unit fetch_result" where
  "server_success = Inr \<lparr>status = 200, body = None\<rparr>"

section \<open>The add-material form and handleAddBook\<close>

text \<open>
  The form as it is rendered and filled in when it is submitted. The select \<open>category\<close>
  shows \<open>formCategory\<close>; the input \<open>title\<close> is rendered only for \<open>CHRISTIAN_NOVEL\<close>, the
  inputs \<open>department\<close>, \<open>level\<close>, \<open>course_code\<close> and \<open>course_title\<close> only for \<open>ACADEMIC\<close>.
\<close>

record add_book_form =
  formCategory :: BookCategory
  title_input :: string
  department_input :: string
  level_input :: string
  course_code_input :: string
  course_title_input :: string

definition category_value :: "BookCategory \<Rightarrow> string" where
  "category_value c = (case c of ACADEMIC \<Rightarrow> ''Academic'' | CHRISTIAN_NOVEL \<Rightarrow> ''Christian Novel'')"

text \<open>
  \<^verbatim>\<open>new FormData(form)\<close>: the entries of the rendered controls, in document order (the file
  input \<open>pdf_file\<close> is passed to the handler separately). \<^verbatim>\<open>formData.get(name)\<close> is the
  first entry of that name, \<^verbatim>\<open>null\<close> when there is none.
\<close>

definition formData :: "add_book_form \<Rightarrow> (string \<times> string) list" where
  "formData form =
     [(''category'', category_value (formCategory form))] @
     (if formCategory form = CHRISTIAN_NOVEL then [(''title'', title_input form)] else []) @
     (if formCategory form = ACADEMIC
        then [(''department'', department_input form), (''level'', level_input form),
              (''course_code'', course_code_input form),
              (''course_title'', course_title_input form)]
      else [])"

definition formData_get :: "(string \<times> string) list \<Rightarrow> string \<Rightarrow> string option" where
  "formData_get entries field = map_of entries field"

text \<open>
  The attribute \<^verbatim>\<open>required\<close> of the rendered inputs: the browser submits the form only
  when each of them is filled in.
\<close>

definition form_valid :: "add_book_form \<Rightarrow> bool" where
  "form_valid form =
     (if formCategory form = ACADEMIC
        then department_input form \<noteq> [] \<and> level_input form \<noteq> [] \<and>
             course_code_input form \<noteq> [] \<and> course_title_input form \<noteq> []
      else title_input form \<noteq> [])"

text \<open>A file sent to \<^verbatim>\<open>/api/admin/upload\<close>.\<close>

record upload_file =
  file_name :: string
  file_type :: string
  file_bytes :: string

text \<open>The object \<^verbatim>\<open>bookData\<close> posted to \<^verbatim>\<open>/api/admin/books\<close>; \<open>None\<close> is \<^verbatim>\<open>null\<close>.\<close>

record bookData =
  bd_title :: "string option"
  bd_author :: string
  bd_category :: "string option"
  bd_cover_url :: "string option"
  bd_download_url :: "string option"
  bd_department :: "string option"
  bd_level :: "string option"
  bd_course_code :: "string option"
  bd_course_title :: "string option"

text \<open>The properties \<open>url\<close> and \<open>error\<close> of a JSON reply, absent when \<open>None\<close>.\<close>

record reply =
  url :: "string option"
  error :: "string option"

text \<open>What the handler does that can be seen from outside, in the order it does it.\<close>

datatype event =
    SetLoading bool
  | SetUploadProgress "string option"
  | ShowToast string toast_type
  | UploadRequest upload_file
  | CreateRecordRequest bookData
  | FormReset
  | SetFormCategory BookCategory
  | SetPdfLabel string
  | FetchAdminData

text \<open>
  Phase 1. \<open>getDocument_result\<close> stands for \<^verbatim>\<open>file.arrayBuffer()\<close> and
  \<^verbatim>\<open>pdfjsLib.getDocument(...).promise\<close>, \<open>getPage_result\<close> for \<^verbatim>\<open>pdf.getPage(1)\<close>,
  \<open>has_context\<close> for \<^verbatim>\<open>canvas.getContext('2d')\<close> being non-null, \<open>render_result\<close> for
  \<^verbatim>\<open>page.render(...).promise\<close> and \<open>toBlob_result\<close> for the blob \<^verbatim>\<open>canvas.toBlob\<close> passes on
  (\<open>None\<close> is \<^verbatim>\<open>null\<close>). \<open>Inl msg\<close> is a rejection with that message.
\<close>

record thumbnail_env =
  getDocument_result :: "string + unit"
  getPage_result :: "string + unit"
  has_context :: bool
  render_result :: "string + unit"
  toBlob_result :: "string option"

definition generateThumbnail :: "thumbnail_env \<Rightarrow> string + string" where
  "generateThumbnail env =
     (case getDocument_result env of
        Inl err \<Rightarrow> Inl err
      | Inr pdf \<Rightarrow>
          (case getPage_result env of
             Inl err \<Rightarrow> Inl err
           | Inr page \<Rightarrow>
               (case (if has_context env then render_result env else Inr ()) of
                  Inl err \<Rightarrow> Inl err
                | Inr rendered \<Rightarrow>
                    (case toBlob_result env of
                       None \<Rightarrow> Inl ''Failed to generate thumbnail''
                     | Some thumbnailBlob \<Rightarrow> Inr thumbnailBlob))))"

text \<open>
  Reading a property of a parsed reply; on \<^verbatim>\<open>null\<close> the engine throws a \<^verbatim>\<open>TypeError\<close>
  (the message is the engine's own).
\<close>

definition type_error :: "string \<Rightarrow> string" where
  "type_error prop = ''Cannot read properties of null (reading '' @ prop @ '')''"

definition get_url :: "reply json \<Rightarrow> string + string option" where
  "get_url data = (case data of JsonNull \<Rightarrow> Inl (type_error ''url'') | Json r \<Rightarrow> Inr (url r))"

definition get_error :: "reply json \<Rightarrow> string + string option" where
  "get_error data =
     (case data of JsonNull \<Rightarrow> Inl (type_error ''error'') | Json r \<Rightarrow> Inr (error r))"

text \<open>\<^verbatim>\<open>${res.status}\<close> in a template literal: the decimal digits of the number.\<close>

fun decimal_digits :: "nat \<Rightarrow> nat list" where
  "decimal_digits n = (if n < 10 then [n] else decimal_digits (n div 10) @ [n mod 10])"

declare decimal_digits.simps [simp del]

definition number_text :: "nat \<Rightarrow> string" where
  "number_text n = map (\<lambda>d. char_of (48 + d)) (decimal_digits n)"

definition non_json_message :: "string \<Rightarrow> nat \<Rightarrow> string" where
  "non_json_message during st =
     ''Server returned non-JSON response during '' @ during @ '' ('' @ number_text st @ '')''"

text \<open>
  Phases 2 and 3 after the request is sent: the text of the response is parsed, then
  \<^verbatim>\<open>if (!res.ok) throw new Error(data.error || fallback)\<close>.
\<close>

definition read_upload :: "string \<Rightarrow> string \<Rightarrow> reply fetch_result \<Rightarrow> string + reply json" where
  "read_upload during fallback fetched =
     (case fetched of
        Inl err \<Rightarrow> Inl err
      | Inr res \<Rightarrow>
          (case body res of
             None \<Rightarrow> Inl (non_json_message during (status res))
           | Some data \<Rightarrow>
               if \<not> ok res
                 then (case get_error data of
                         Inl err \<Rightarrow> Inl err
                       | Inr e \<Rightarrow> Inl (or_default e fallback))
               else Inr data))"

text \<open>Phase 4, the record. The properties are evaluated in the order of the literal.\<close>

definition build_bookData ::
  "(string \<times> string) list \<Rightarrow> reply json \<Rightarrow> reply json \<Rightarrow> string + bookData" where
  "build_bookData entries thumbData pdfData =
     (let category = formData_get entries ''category'';
          title = (if category = Some (category_value ACADEMIC)
                     then formData_get entries ''course_title''
                   else formData_get entries ''title'')
      in case get_url thumbData of
           Inl err \<Rightarrow> Inl err
         | Inr cover \<Rightarrow>
             (case get_url pdfData of
                Inl err \<Rightarrow> Inl err
              | Inr download \<Rightarrow>
                  Inr \<lparr>bd_title = title, bd_author = ''DLCF Library'', bd_category = category,
                       bd_cover_url = cover, bd_download_url = download,
                       bd_department = formData_get entries ''department'',
                       bd_level = formData_get entries ''level'',
                       bd_course_code = formData_get entries ''course_code'',
                       bd_course_title = formData_get entries ''course_title''\<rparr>))"

text \<open>The handler's \<^verbatim>\<open>catch\<close>: \<^verbatim>\<open>showToast(err.message, 'error')\<close>.\<close>

definition catch_upload :: "string \<Rightarrow> event list" where
  "catch_upload msg = [ShowToast msg ToastError]"

definition save_record :: "reply fetch_result \<Rightarrow> event list" where
  "save_record fetched =
     (case fetched of
        Inl err \<Rightarrow> catch_upload err
      | Inr res \<Rightarrow>
          (case body res of
             None \<Rightarrow> catch_upload (non_json_message ''record save'' (status res))
           | Some responseData \<Rightarrow>
               if ok res
                 then [ShowToast ''Book added successfully!'' ToastSuccess, FormReset,
                       SetFormCategory ACADEMIC, SetPdfLabel ''Select PDF from local storage'',
                       FetchAdminData]
               else (case get_error responseData of
                       Inl err \<Rightarrow> catch_upload err
                     | Inr e \<Rightarrow> [ShowToast (or_default e ''Failed to add book'') ToastError])))"

text \<open>The responses the three requests get, consulted only when the request is sent.\<close>

record upload_env =
  thumbnail :: thumbnail_env
  pdf_response :: "reply fetch_result"
  thumb_response :: "reply fetch_result"
  save_response :: "reply fetch_result"

definition thumbnail_file :: "string \<Rightarrow> upload_file" where
  "thumbnail_file thumbnailBlob =
     \<lparr>file_name = ''thumbnail.jpg'', file_type = ''image/jpeg'', file_bytes = thumbnailBlob\<rparr>"

text \<open>The \<^verbatim>\<open>try\<close> block of \<^verbatim>\<open>handleAddBook\<close> with its \<^verbatim>\<open>catch\<close>.\<close>

definition add_book_phases ::
  "(string \<times> string) list \<Rightarrow> upload_file \<Rightarrow> upload_env \<Rightarrow> event list" where
  "add_book_phases entries file env =
     (case generateThumbnail (thumbnail env) of
        Inl err \<Rightarrow> catch_upload err
      | Inr thumbnailBlob \<Rightarrow>
          [SetUploadProgress (Some ''Uploading PDF...''), UploadRequest file] @
          (case read_upload ''PDF upload'' ''PDF upload failed'' (pdf_response env) of
             Inl err \<Rightarrow> catch_upload err
           | Inr pdfData \<Rightarrow>
               [SetUploadProgress (Some ''Uploading thumbnail...''),
                UploadRequest (thumbnail_file thumbnailBlob)] @
               (case read_upload ''thumbnail upload'' ''Thumbnail upload failed''
                       (thumb_response env) of
                  Inl err \<Rightarrow> catch_upload err
                | Inr thumbData \<Rightarrow>
                    [SetUploadProgress (Some ''Saving record...'')] @
                    (case build_bookData entries thumbData pdfData of
                       Inl err \<Rightarrow> catch_upload err
                     | Inr bookData \<Rightarrow>
                         [CreateRecordRequest bookData] @ save_record (save_response env)))))"

text \<open>
  \<^verbatim>\<open>handleAddBook\<close>: \<open>file\<close> is \<^verbatim>\<open>formData.get('pdf_file')\<close>; the \<^verbatim>\<open>finally\<close> block ends
  every run that got past the check of the file.
\<close>

definition handleAddBook ::
  "(string \<times> string) list \<Rightarrow> upload_file option \<Rightarrow> upload_env \<Rightarrow> event list" where
  "handleAddBook entries file env =
     (case file of
        None \<Rightarrow> [ShowToast ''Please select a PDF file'' ToastError]
      | Some f \<Rightarrow>
          [SetLoading True, SetUploadProgress (Some ''Generating thumbnail...'')] @
          add_book_phases entries f env @
          [SetLoading False, SetUploadProgress None])"

text \<open>The network calls of a run, in order: the two uploads and the creation of the record.\<close>

definition is_request :: "event \<Rightarrow> bool" where
  "is_request e =
     (case e of UploadRequest f \<Rightarrow> True | CreateRecordRequest b \<Rightarrow> True | _ \<Rightarrow> False)"

definition requests :: "event list \<Rightarrow> event list" where
  "requests events = filter is_request events"

subsection \<open>Sample submissions\<close>

definition demo_form :: add_book_form where
  "demo_form =
     \<lparr>formCategory = ACADEMIC, title_input = '''', department_input = ''Computer Science'',
      level_input = ''100'', course_code_input = ''CSC101'',
      course_title_input = ''Intro to CS''\<rparr>"

definition demo_novel_form :: add_book_form where
  "demo_novel_form =
     \<lparr>formCategory = CHRISTIAN_NOVEL, title_input = ''Pilgrims Progress'',
      department_input = '''', level_input = '''', course_code_input = '''',
      course_title_input = ''''\<rparr>"

definition demo_pdf :: upload_file where
  "demo_pdf = \<lparr>file_name = ''intro.pdf'', file_type = ''application/pdf'', file_bytes = ''%PDF''\<rparr>"

definition uploaded :: "string \<Rightarrow> reply fetch_result" where
  "uploaded u = Inr \<lparr>status = 200, body = Some (Json \<lparr>url = Some u, error = None\<rparr>)\<rparr>"

definition demo_thumbnail_env :: thumbnail_env where
  "demo_thumbnail_env =
     \<lparr>getDocument_result = Inr (), getPage_result = Inr (), has_context = True,
      render_result = Inr (), toBlob_result = Some ''JPEG''\<rparr>"

definition demo_env :: upload_env where
  "demo_env =
     \<lparr>thumbnail = demo_thumbnail_env, pdf_response = uploaded ''https://store/intro.pdf'',
      thumb_response = uploaded ''https://store/thumbnail.jpg'',
      save_response = Inr \<lparr>status = 200, body = Some (Json \<lparr>url = None, error = None\<rparr>)\<rparr>\<rparr>"

definition demo_bookData :: bookData where
  "demo_bookData =
     \<lparr>bd_title = Some ''Intro to CS'', bd_author = ''DLCF Library'',
      bd_category = Some ''Academic'', bd_cover_url = Some ''https://store/thumbnail.jpg'',
      bd_download_url = Some ''https://store/intro.pdf'',
      bd_department = Some ''Computer Science'', bd_level = Some ''100'',
      bd_course_code = Some ''CSC101'', bd_course_title = Some ''Intro to CS''\<rparr>"

section \<open>Lemmas on strings\<close>






lemma fold_filter_conj: "fold filter ps xs = filter (\<lambda>x. \<forall>p\<in>set ps. p x) xs"
  by (induction ps arbitrary: xs) (auto intro: filter_cong)

lemma demo_filtered: "filteredBooks [demo_novel, demo_academic] demo_filters = [demo_academic]"
  by code_simp

section \<open>Catalog filtering: the claims\<close>



text \<open>
  C8. Filtering is idempotent: filtering a filtered list again with the same filter state
  gives the same list. It is commutative across the four predicates: whenever \<open>ps\<close> lists
  the search, category, department and level predicates in any order, applying them one
  after the other as single filters gives the list (so also the set) that the combined
  filter gives.
\<close>

theorem filteredBooks_idempotent_commutative:
  "filteredBooks (filteredBooks bs f) f = filteredBooks bs f \<and>
   (set ps = {matchesSearch f, matchesCategory f, matchesDept f, matchesLevel f} \<longrightarrow>
      applyFilters ps bs = filteredBooks bs f)"
  by (simp add: applyFilters_def fold_filter_conj filteredBooks_def)

theorem filteredBooks_idempotent_commutative_witness:
  "applyFilters [matchesLevel demo_filters, matchesSearch demo_filters,
                 matchesDept demo_filters, matchesCategory demo_filters]
     [demo_novel, demo_academic] = [demo_academic] \<and>
   applyFilters [matchesCategory demo_filters, matchesDept demo_filters,
                 matchesLevel demo_filters, matchesSearch demo_filters]
     [demo_novel, demo_academic] = [demo_academic] \<and>
   filteredBooks (filteredBooks [demo_novel, demo_academic] demo_filters) demo_filters
     = [demo_academic]"
proof -
  have a: "set [matchesLevel demo_filters, matchesSearch demo_filters,
                matchesDept demo_filters, matchesCategory demo_filters] =
           {matchesSearch demo_filters, matchesCategory demo_filters,
            matchesDept demo_filters, matchesLevel demo_filters}"
    by auto
  have b: "set [matchesCategory demo_filters, matchesDept demo_filters,
                matchesLevel demo_filters, matchesSearch demo_filters] =
           {matchesSearch demo_filters, matchesCategory demo_filters,
            matchesDept demo_filters, matchesLevel demo_filters}"
    by auto
  show ?thesis
    using a b
      filteredBooks_idempotent_commutative [of "[demo_novel, demo_academic]" demo_filters
        "[matchesLevel demo_filters, matchesSearch demo_filters,
          matchesDept demo_filters, matchesCategory demo_filters]"]
      filteredBooks_idempotent_commutative [of "[demo_novel, demo_academic]" demo_filters
        "[matchesCategory demo_filters, matchesDept demo_filters,
          matchesLevel demo_filters, matchesSearch demo_filters]"]
    by (simp only: demo_filtered simp_thms)
qed

text \<open>
  C10. When the selected category is "All", the filtered result is empty for every list
  of books, so for every non-empty one too: \<open>matchesCategory\<close> compares the book's category
  with the selection, and no book's category is "All". "Clear all filters" sets that state.
\<close>

theorem category_All_shows_nothing:
  "(FilterState.category f = All \<longrightarrow> filteredBooks bs f = []) \<and>
   filteredBooks bs clearAllFilters = []"
  by (simp add: filteredBooks_def matchesCategory_def clearAllFilters_def)

theorem category_All_shows_nothing_witness:
  "[demo_novel, demo_academic] \<noteq> [] \<and>
   filteredBooks [demo_novel, demo_academic] (demo_filters\<lparr>category := All\<rparr>) = [] \<and>
   filteredBooks [demo_novel, demo_academic] clearAllFilters = []"
  using category_All_shows_nothing [of "demo_filters\<lparr>category := All\<rparr>" "[demo_novel, demo_academic]"]
  by simp

section \<open>Authentication: lemmas\<close>








lemma register_catch_status: "status (register_catch msg) = 400"
  by (simp add: register_catch_def)








lemma store_ok_register: "store_ok d \<Longrightarrow> store_ok (snd (register d now uuid e p n t))"
  by (auto simp: store_ok_def register_def insert_user_def register_catch_def distinct_map_filter
           split: sum.splits if_splits)

lemma store_ok_generate_link: "store_ok d \<Longrightarrow> store_ok (snd (generate_link d now t idu))"
  by (auto simp: store_ok_def generate_link_def insert_link_def Let_def split: sum.splits if_splits)

lemma post_auth_login_configured:
  "getSupabase srv = Inr d \<Longrightarrow> post_auth_login srv e p = login d e p"
  by (simp add: post_auth_login_def)

lemma post_auth_login_unconfigured:
  "getSupabase srv = Inl msg \<Longrightarrow> post_auth_login srv e p = \<lparr>status = 500, body = LoginError msg\<rparr>"
  by (simp add: post_auth_login_def)

lemma post_auth_register_configured:
  "getSupabase srv = Inr d \<Longrightarrow>
   post_auth_register srv now uuid e p n t =
     (fst (register d now uuid e p n t), srv\<lparr>store := snd (register d now uuid e p n t)\<rparr>)"
  by (simp add: post_auth_register_def split: prod.splits)

lemma post_auth_register_unconfigured:
  "getSupabase srv = Inl msg \<Longrightarrow>
   status (fst (post_auth_register srv now uuid e p n t)) = 400 \<and>
   snd (post_auth_register srv now uuid e p n t) = srv"
  by (simp add: post_auth_register_def register_catch_status)

section \<open>Authentication: the claims\<close>






section \<open>Client: lemmas\<close>

lemma unconfigured_includes: "includes_str supabase_config_error ''SUPABASE_URL''"
  by (simp add: supabase_config_error_def)

lemma requests_append: "requests (xs @ ys) = requests xs @ requests ys"
  by (simp add: requests_def)

lemma requests_Cons:
  "requests (e # es) = (if is_request e then e # requests es else requests es)"
  by (simp add: requests_def)

lemma requests_Nil: "requests [] = []"
  by (simp add: requests_def)

lemma is_request_simps:
  "is_request (UploadRequest f)" "is_request (CreateRecordRequest b)"
  "\<not> is_request (SetLoading l)" "\<not> is_request (SetUploadProgress p)"
  "\<not> is_request (ShowToast m t)" "\<not> is_request FormReset"
  "\<not> is_request (SetFormCategory c)" "\<not> is_request (SetPdfLabel s)"
  "\<not> is_request FetchAdminData"
  by (simp_all add: is_request_def)

lemma requests_catch_upload: "requests (catch_upload msg) = []"
  by (simp add: catch_upload_def requests_Cons requests_Nil is_request_simps)

lemma requests_save_record: "requests (save_record fetched) = []"
  by (simp add: save_record_def requests_catch_upload requests_Cons requests_Nil
      is_request_simps split: sum.splits option.splits)

lemma requests_handleAddBook:
  "requests (handleAddBook entries (Some f) env) = requests (add_book_phases entries f env)"
  by (simp add: handleAddBook_def requests_append requests_Cons requests_Nil is_request_simps)

lemma requests_phases:
  "requests (add_book_phases entries f env) =
     (case generateThumbnail (thumbnail env) of
        Inl err \<Rightarrow> []
      | Inr thumbnailBlob \<Rightarrow>
          UploadRequest f #
          (case read_upload ''PDF upload'' ''PDF upload failed'' (pdf_response env) of
             Inl err \<Rightarrow> []
           | Inr pdfData \<Rightarrow>
               UploadRequest (thumbnail_file thumbnailBlob) #
               (case read_upload ''thumbnail upload'' ''Thumbnail upload failed''
                       (thumb_response env) of
                  Inl err \<Rightarrow> []
                | Inr thumbData \<Rightarrow>
                    (case build_bookData entries thumbData pdfData of
                       Inl err \<Rightarrow> []
                     | Inr bookData \<Rightarrow> [CreateRecordRequest bookData]))))"
  by (simp add: add_book_phases_def requests_append requests_catch_upload requests_save_record
      requests_Cons requests_Nil is_request_simps split: sum.splits)


lemma read_upload_ok:
  "ok res \<Longrightarrow> body res = Some data \<Longrightarrow> read_upload during fallback (Inr res) = Inr data"
  by (simp add: read_upload_def)

lemma build_bookData_form:
  "build_bookData (formData form) (Json tr) (Json pr) =
     Inr \<lparr>bd_title = Some (if formCategory form = ACADEMIC then course_title_input form
                             else title_input form),
          bd_author = ''DLCF Library'',
          bd_category = Some (category_value (formCategory form)),
          bd_cover_url = url tr, bd_download_url = url pr,
          bd_department =
            (if formCategory form = ACADEMIC then Some (department_input form) else None),
          bd_level = (if formCategory form = ACADEMIC then Some (level_input form) else None),
          bd_course_code =
            (if formCategory form = ACADEMIC then Some (course_code_input form) else None),
          bd_course_title =
            (if formCategory form = ACADEMIC then Some (course_title_input form) else None)\<rparr>"
  by (cases "formCategory form")
     (simp_all add: build_bookData_def formData_def formData_get_def get_url_def Let_def
        category_value_def)

lemma build_bookData_academic_fields:
  assumes "build_bookData (formData form) thumbData pdfData = Inr bd"
  shows "bd_department bd =
           (if formCategory form = ACADEMIC then Some (department_input form) else None) \<and>
         bd_level bd =
           (if formCategory form = ACADEMIC then Some (level_input form) else None) \<and>
         bd_course_code bd =
           (if formCategory form = ACADEMIC then Some (course_code_input form) else None) \<and>
         bd_course_title bd =
           (if formCategory form = ACADEMIC then Some (course_title_input form) else None)"
proof -
  obtain tr pr where "thumbData = Json tr" "pdfData = Json pr"
    using assms
    by (cases thumbData; cases pdfData) (simp_all add: build_bookData_def get_url_def Let_def)
  then show ?thesis using assms by (auto simp: build_bookData_form)
qed

lemma mem_requests: "e \<in> set (requests es) \<longleftrightarrow> e \<in> set es \<and> is_request e"
  by (simp add: requests_def)

lemma create_record_built:
  assumes "CreateRecordRequest bd \<in> set (handleAddBook entries file env)"
  shows "\<exists>thumbData pdfData. build_bookData entries thumbData pdfData = Inr bd"
proof -
  obtain f where f: "file = Some f"
    using assms by (cases "file") (simp_all add: handleAddBook_def)
  have "CreateRecordRequest bd \<in> set (requests (handleAddBook entries (Some f) env))"
    using assms f by (simp add: mem_requests is_request_simps)
  then have "CreateRecordRequest bd \<in> set (requests (add_book_phases entries f env))"
    by (simp only: requests_handleAddBook)
  then show ?thesis
    unfolding requests_phases by (auto split: sum.splits) blast
qed

lemma demo_run:
  "handleAddBook (formData demo_form) (Some demo_pdf) demo_env =
     [SetLoading True, SetUploadProgress (Some ''Generating thumbnail...''),
      SetUploadProgress (Some ''Uploading PDF...''), UploadRequest demo_pdf,
      SetUploadProgress (Some ''Uploading thumbnail...''),
      UploadRequest (thumbnail_file ''JPEG''),
      SetUploadProgress (Some ''Saving record...''), CreateRecordRequest demo_bookData,
      ShowToast ''Book added successfully!'' ToastSuccess, FormReset,
      SetFormCategory ACADEMIC, SetPdfLabel ''Select PDF from local storage'',
      FetchAdminData, SetLoading False, SetUploadProgress None]"
  by (simp add: handleAddBook_def add_book_phases_def generateThumbnail_def read_upload_def
      build_bookData_form save_record_def demo_env_def demo_thumbnail_env_def uploaded_def
      ok_def demo_form_def demo_bookData_def category_value_def)

lemma demo_thumbnail: "generateThumbnail (thumbnail demo_env) = Inr ''JPEG''"
  by (simp add: generateThumbnail_def demo_env_def demo_thumbnail_env_def)


section \<open>Client: the claims\<close>



text \<open>
  C5. For each of the three optimistic removals (approve user, revoke link, delete book):
  while the request is under way the displayed list is the list without the items of the
  given id; if the request fails (the promise rejects or the response is not ok) the
  displayed list is again exactly the list as it was before, so the removed item is back
  with its data; if it succeeds the displayed list stays the list without those items.
\<close>

theorem optimistic_removal_rollback:
  "(request_failed fetched \<longrightarrow>
      displayed_after (approveUser pendingUsers userId fetched) = pendingUsers \<and>
      displayed_after (deleteLink adminLinks linkId True fetched) = adminLinks \<and>
      displayed_after (deleteBook bs bookId True fetched) = bs) \<and>
   (\<not> request_failed fetched \<longrightarrow>
      displayed_after (approveUser pendingUsers userId fetched) =
        filter (\<lambda>u. pu_id u \<noteq> userId) pendingUsers \<and>
      displayed_after (deleteLink adminLinks linkId True fetched) =
        filter (\<lambda>l. rl_id l \<noteq> linkId) adminLinks \<and>
      displayed_after (deleteBook bs bookId True fetched) =
        filter (\<lambda>b. book_id b \<noteq> bookId) bs) \<and>
   displayed_during (approveUser pendingUsers userId fetched) =
     filter (\<lambda>u. pu_id u \<noteq> userId) pendingUsers \<and>
   displayed_during (deleteLink adminLinks linkId True fetched) =
     filter (\<lambda>l. rl_id l \<noteq> linkId) adminLinks \<and>
   displayed_during (deleteBook bs bookId True fetched) =
     filter (\<lambda>b. book_id b \<noteq> bookId) bs"
  by (cases fetched)
     (simp_all add: request_failed_def approveUser_def deleteLink_def deleteBook_def Let_def)

theorem optimistic_removal_rollback_witness:
  "displayed_during (approveUser demo_pending_users ''u1'' server_error) =
     [\<lparr>pu_id = ''u2'', pu_email = ''bob@dlcf.org'', pu_name = ''Bob''\<rparr>] \<and>
   displayed_after (approveUser demo_pending_users ''u1'' server_error) = demo_pending_users \<and>
   \<lparr>pu_id = ''u1'', pu_email = ''ada@dlcf.org'', pu_name = ''Ada''\<rparr>
     \<in> set (displayed_after (approveUser demo_pending_users ''u1'' server_error)) \<and>
   displayed_after (approveUser demo_pending_users ''u1'' server_success) =
     [\<lparr>pu_id = ''u2'', pu_email = ''bob@dlcf.org'', pu_name = ''Bob''\<rparr>] \<and>
   displayed_after (deleteLink demo_admin_links ''k1'' True server_error) = demo_admin_links \<and>
   displayed_after (deleteLink demo_admin_links ''k1'' True server_success) = [] \<and>
   displayed_after (deleteBook [demo_novel, demo_academic] ''b2'' True server_error) =
     [demo_novel, demo_academic] \<and>
   displayed_after (deleteBook [demo_novel, demo_academic] ''b2'' True server_success) =
     [demo_academic]"
proof -
  have f: "request_failed server_error" and s: "\<not> request_failed server_success"
    by (simp_all add: request_failed_def server_error_def server_success_def ok_def)
  note e = optimistic_removal_rollback [of server_error demo_pending_users "''u1''"
      demo_admin_links "''k1''" "[demo_novel, demo_academic]" "''b2''"]
  note g = optimistic_removal_rollback [of server_success demo_pending_users "''u1''"
      demo_admin_links "''k1''" "[demo_novel, demo_academic]" "''b2''"]
  have 1: "displayed_after (approveUser demo_pending_users ''u1'' server_error) = demo_pending_users"
    and 2: "displayed_after (deleteLink demo_admin_links ''k1'' True server_error) = demo_admin_links"
    and 3: "displayed_after (deleteBook [demo_novel, demo_academic] ''b2'' True server_error) =
     [demo_novel, demo_academic]"
    using e f by blast+
  have 4: "displayed_during (approveUser demo_pending_users ''u1'' server_error) =
     [\<lparr>pu_id = ''u2'', pu_email = ''bob@dlcf.org'', pu_name = ''Bob''\<rparr>]"
    using e by (simp add: demo_pending_users_def)
  have 5: "displayed_after (approveUser demo_pending_users ''u1'' server_success) =
     [\<lparr>pu_id = ''u2'', pu_email = ''bob@dlcf.org'', pu_name = ''Bob''\<rparr>]"
    using g s by (simp add: demo_pending_users_def)
  have 6: "displayed_after (deleteLink demo_admin_links ''k1'' True server_success) = []"
    using g s by (simp add: demo_admin_links_def)
  have 7: "displayed_after (deleteBook [demo_novel, demo_academic] ''b2'' True server_success) =
     [demo_academic]"
    using g s by (simp add: demo_novel_def demo_academic_def)
  have 8: "\<lparr>pu_id = ''u1'', pu_email = ''ada@dlcf.org'', pu_name = ''Ada''\<rparr>
     \<in> set (displayed_after (approveUser demo_pending_users ''u1'' server_error))"
    unfolding 1 by (simp add: demo_pending_users_def)
  show ?thesis using 1 2 3 4 5 6 7 8 by blast
qed

text \<open>
  C6. For every submission of the rendered form whose thumbnail is generated and whose
  two uploads are answered ok with a JSON object, the requests are the two uploads and
  then the creation of one record: its title is the submitted course title when the
  category is academic and the title field otherwise; its author is "DLCF Library"; its
  category is the submitted one; its cover and download URLs are the URLs of the
  thumbnail and PDF uploads; and for the academic category its department, level, course
  code and course title are the submitted values.
\<close>

theorem academic_record_fields:
  assumes "generateThumbnail (thumbnail env) = Inr blob"
    and "pdf_response env = Inr pdfRes" "ok pdfRes" "body pdfRes = Some (Json pr)"
    and "thumb_response env = Inr thumbRes" "ok thumbRes" "body thumbRes = Some (Json tr)"
  shows "requests (handleAddBook (formData form) (Some f) env) =
     [UploadRequest f, UploadRequest (thumbnail_file blob),
      CreateRecordRequest
        \<lparr>bd_title = Some (if formCategory form = ACADEMIC then course_title_input form
                           else title_input form),
         bd_author = ''DLCF Library'',
         bd_category = Some (category_value (formCategory form)),
         bd_cover_url = url tr, bd_download_url = url pr,
         bd_department =
           (if formCategory form = ACADEMIC then Some (department_input form) else None),
         bd_level = (if formCategory form = ACADEMIC then Some (level_input form) else None),
         bd_course_code =
           (if formCategory form = ACADEMIC then Some (course_code_input form) else None),
         bd_course_title =
           (if formCategory form = ACADEMIC then Some (course_title_input form) else None)\<rparr>]"
  using assms
  by (simp add: requests_handleAddBook requests_phases read_upload_ok build_bookData_form)

theorem academic_record_fields_witness:
  "requests (handleAddBook (formData demo_form) (Some demo_pdf) demo_env) =
     [UploadRequest demo_pdf, UploadRequest (thumbnail_file ''JPEG''),
      CreateRecordRequest
        \<lparr>bd_title = Some ''Intro to CS'', bd_author = ''DLCF Library'',
         bd_category = Some ''Academic'', bd_cover_url = Some ''https://store/thumbnail.jpg'',
         bd_download_url = Some ''https://store/intro.pdf'',
         bd_department = Some ''Computer Science'', bd_level = Some ''100'',
         bd_course_code = Some ''CSC101'', bd_course_title = Some ''Intro to CS''\<rparr>] \<and>
   requests (handleAddBook (formData demo_novel_form) (Some demo_pdf) demo_env) =
     [UploadRequest demo_pdf, UploadRequest (thumbnail_file ''JPEG''),
      CreateRecordRequest
        \<lparr>bd_title = Some ''Pilgrims Progress'', bd_author = ''DLCF Library'',
         bd_category = Some ''Christian Novel'',
         bd_cover_url = Some ''https://store/thumbnail.jpg'',
         bd_download_url = Some ''https://store/intro.pdf'',
         bd_department = None, bd_level = None,
         bd_course_code = None, bd_course_title = None\<rparr>]"
proof -
  let ?pr = "\<lparr>url = Some ''https://store/intro.pdf'', error = None\<rparr>"
  let ?tr = "\<lparr>url = Some ''https://store/thumbnail.jpg'', error = None\<rparr>"
  have h: "pdf_response demo_env = Inr \<lparr>status = 200, body = Some (Json ?pr)\<rparr>"
    "ok \<lparr>status = 200, body = Some (Json ?pr)\<rparr>"
    "body \<lparr>status = 200, body = Some (Json ?pr)\<rparr> = Some (Json ?pr)"
    "thumb_response demo_env = Inr \<lparr>status = 200, body = Some (Json ?tr)\<rparr>"
    "ok \<lparr>status = 200, body = Some (Json ?tr)\<rparr>"
    "body \<lparr>status = 200, body = Some (Json ?tr)\<rparr> = Some (Json ?tr)"
    by (simp_all add: demo_env_def uploaded_def ok_def)
  note a = academic_record_fields [OF demo_thumbnail h, of demo_form demo_pdf]
  note n = academic_record_fields [OF demo_thumbnail h, of demo_novel_form demo_pdf]
  show ?thesis
    using a n by (simp add: demo_form_def demo_novel_form_def category_value_def)
qed

text \<open>
  C7. Every record that a submission of the rendered form asks to create carries no
  academic field (department, level, course code and course title are all \<^verbatim>\<open>null\<close>) when
  the form's category is not academic, and carries all four, with the submitted values,
  when it is academic; these are non-empty when the form passed the \<^verbatim>\<open>required\<close> check.
\<close>

theorem record_academic_fields_by_category:
  assumes "CreateRecordRequest bd \<in> set (handleAddBook (formData form) file env)"
  shows "(formCategory form \<noteq> ACADEMIC \<longrightarrow>
            bd_department bd = None \<and> bd_level bd = None \<and>
            bd_course_code bd = None \<and> bd_course_title bd = None) \<and>
         (formCategory form = ACADEMIC \<longrightarrow>
            bd_department bd = Some (department_input form) \<and>
            bd_level bd = Some (level_input form) \<and>
            bd_course_code bd = Some (course_code_input form) \<and>
            bd_course_title bd = Some (course_title_input form) \<and>
            (form_valid form \<longrightarrow>
               bd_department bd \<noteq> Some [] \<and> bd_level bd \<noteq> Some [] \<and>
               bd_course_code bd \<noteq> Some [] \<and> bd_course_title bd \<noteq> Some []))"
proof -
  obtain thumbData pdfData where "build_bookData (formData form) thumbData pdfData = Inr bd"
    using create_record_built [OF assms] by blast
  then show ?thesis
    using build_bookData_academic_fields [of form thumbData pdfData bd]
    by (simp add: form_valid_def)
qed

theorem record_academic_fields_by_category_witness:
  "form_valid demo_form \<and>
   CreateRecordRequest demo_bookData
     \<in> set (handleAddBook (formData demo_form) (Some demo_pdf) demo_env) \<and>
   bd_department demo_bookData = Some (department_input demo_form) \<and>
   bd_level demo_bookData = Some (level_input demo_form) \<and>
   bd_course_code demo_bookData = Some (course_code_input demo_form) \<and>
   bd_course_title demo_bookData = Some (course_title_input demo_form) \<and>
   bd_department demo_bookData \<noteq> Some []"
proof -
  have m: "CreateRecordRequest demo_bookData
             \<in> set (handleAddBook (formData demo_form) (Some demo_pdf) demo_env)"
    by (simp add: demo_run)
  have v: "form_valid demo_form" and c: "formCategory demo_form = ACADEMIC"
    by (simp_all add: form_valid_def demo_form_def)
  show ?thesis
    using record_academic_fields_by_category [OF m] m v c by blast
qed

text \<open>
  C9, as the code has it. Whenever the request for the books fails (\<^verbatim>\<open>fetch\<close> throws, or
  the response is not ok), the displayed list becomes the demo catalog. The banner is
  set only when the error reply is JSON whose \<open>error\<close> message contains \<open>SUPABASE_URL\<close>;
  otherwise the banner state stays as it was.
\<close>

theorem fetchBooks_fallback:
  "request_failed fetched \<longrightarrow>
     books (fetchBooks INITIAL_BOOKS st fetched) = INITIAL_BOOKS \<and>
     dbError (fetchBooks INITIAL_BOOKS st fetched) =
       (if reports_missing_configuration fetched
          then Some ''Database not configured. Showing demo materials.''
        else dbError st)"
  by (auto simp: request_failed_def fetchBooks_def reports_missing_configuration_def
           split: sum.splits option.splits json.splits books_json.splits)

theorem fetchBooks_fallback_witness:
  "fetchBooks [demo_academic] initial_library unconfigured_reply =
     \<lparr>books = [demo_academic],
      dbError = Some ''Database not configured. Showing demo materials.''\<rparr>"
proof -
  have f: "request_failed unconfigured_reply"
    by (simp add: request_failed_def unconfigured_reply_def ok_def)
  have m: "reports_missing_configuration unconfigured_reply"
    by (simp add: reports_missing_configuration_def unconfigured_reply_def ok_def
        unconfigured_includes)
  show ?thesis
    using fetchBooks_fallback [of unconfigured_reply "[demo_academic]" initial_library] f m
    by (cases "fetchBooks [demo_academic] initial_library unconfigured_reply") simp
qed

text \<open>
  C9 as it is worded has a banner in every such case. When \<^verbatim>\<open>fetch\<close> throws, and when the
  error reply does not name \<open>SUPABASE_URL\<close>, the demo catalog is shown and no banner is
  set: \<^verbatim>\<open>setDbError\<close> is guarded by \<^verbatim>\<open>errorData.error?.includes('SUPABASE_URL')\<close>.
\<close>

theorem fetchBooks_no_banner_counterexample:
  "fetchBooks [demo_academic] initial_library (Inl ''Failed to fetch'') =
     \<lparr>books = [demo_academic], dbError = None\<rparr> \<and>
   fetchBooks [demo_academic] initial_library
     (Inr \<lparr>status = 500, body = Some (Json (BooksObject (Some ''relation books does not exist'')))\<rparr>) =
     \<lparr>books = [demo_academic], dbError = None\<rparr>"
  by (simp add: fetchBooks_def initial_library_def ok_def)

end
